theory Spec2Isabelle
  imports
    Complex_Main
    "HOL-Library.Word"
    "HOL-Library.Char_ord"
    "HOL-Library.List_Lexorder"
    "HOL-Library.Multiset"
begin

unbundle bit_operations_syntax

section \<open>Data model of package \<open>claim\<close>\<close>

text \<open>
  Go strings are immutable byte sequences: \<^typ>\<open>string\<close> (a list of 8-bit characters),
  ordered byte-wise lexicographically, which is the order of Go's \<open><\<close> on strings and of
  \<open>sort.Strings\<close>. A \<open>[]byte\<close> is a list of 8-bit words; \<open>[]byte(s)\<close> converts
  character by character.

  A \<open>time.Time\<close> is the instant it denotes, in nanoseconds since the Unix epoch, as an
  unbounded integer. \<open>float64\<close> arithmetic is modelled by exact arithmetic on
  \<^typ>\<open>real\<close>: rounding is not part of the model.
\<close>

type_synonym byte = "8 word"
type_synonym time = int

definition bytes_of :: "string \<Rightarrow> byte list" where
  "bytes_of s = map of_char s"

datatype error =
    NilClaim
  | NilAttestation
  | SerializeFailed error
  | MultihashFailed
  | ComputeCIDFailed error
  | CIDMismatch string string
  | KeygenFailed
  | InvalidByteError char
  | ErrLength
  | InvalidWitnessID error
  | InvalidKeyLengthGot nat nat
  | InvalidKeyLength
  | InvalidSignature
  | AlreadyAttested string

record Statement =
  Subject :: string
  Predicate :: string
  Object :: string
  Domain' :: string

text \<open>
  Several structs share field names. The field selectors are qualified by the record
  name where they would be ambiguous: \<open>Witness.ID\<close> and \<open>Claim.ID\<close>,
  \<open>Attestation.WitnessID\<close> and \<open>ReputationRecord.WitnessID\<close>,
  \<open>DomainReputation.TotalClaims\<close> and \<open>ReputationRecord.TotalClaims\<close>. The field
  \<open>Domain\<close> is written \<open>Domain'\<close>. A nil \<open>PrivateKey\<close> is \<open>None\<close>.
\<close>

record Witness =
  ID :: string
  PublicKey :: "byte list"
  PrivateKey :: "byte list option"
  Metadata :: "string \<rightharpoonup> string"

record Attestation =
  WitnessID :: string
  Signature :: "byte list"
  Timestamp :: time

record Claim =
  ID :: string
  Statement :: Statement
  Evidence :: "string list"
  TimeEvent :: string
  Witnesses :: "Attestation list"
  Created :: time
  Metadata :: "string \<rightharpoonup> string"

text \<open>
  The counters are \<open>int64\<close>: 64-bit words read as two's complement by \<^const>\<open>sint\<close>.
  \<open>float64(n)\<close> of a counter is the real number \<open>sint n\<close>.
\<close>

type_synonym int64 = "64 word"

record DomainReputation =
  Domain' :: string
  TotalClaims :: int64
  AgreedClaims :: int64
  DisputedClaims :: int64

record ReputationRecord =
  WitnessID :: string
  TotalClaims :: int64
  AgreedClaims :: int64
  DisputedClaims :: int64
  Domains :: "string \<rightharpoonup> DomainReputation"
  FirstSeen :: time
  LastSeen :: time

text \<open>
  The \<open>records\<close> map of a \<open>ReputationStore\<close>. The map holds pointers, and the store
  only ever inserts a freshly allocated record under its own witness id
  (\<open>RecordAttestation\<close>), so no two keys share a record and an update through the pointer
  is an update of the map at that key. The mutex is not modelled.
\<close>

type_synonym ReputationStore = "string \<rightharpoonup> ReputationRecord"

section \<open>Claim identity: \<open>ComputeCID\<close>, \<open>VerifyCID\<close>, \<open>NewClaim\<close>\<close>

subsection \<open>Library primitives used by the serializer\<close>

text \<open>
  \<open>binary.Write(&buf, binary.BigEndian, v)\<close> for a \<open>uint32\<close> and an \<open>int64\<close>: the
  bytes \<open>byte(v >> 24), byte(v >> 16), byte(v >> 8), byte(v)\<close> (and the eight bytes from
  \<open>v >> 56\<close> down for 64 bits) appended to the buffer. Writing to a \<open>bytes.Buffer\<close>
  returns no error; the result type keeps the error the code checks for.
\<close>

definition PutUint32 :: "32 word \<Rightarrow> byte list" where
  "PutUint32 v = [ucast (drop_bit 24 v), ucast (drop_bit 16 v), ucast (drop_bit 8 v), ucast v]"

definition PutUint64 :: "64 word \<Rightarrow> byte list" where
  "PutUint64 v =
     [ucast (drop_bit 56 v), ucast (drop_bit 48 v), ucast (drop_bit 40 v), ucast (drop_bit 32 v),
      ucast (drop_bit 24 v), ucast (drop_bit 16 v), ucast (drop_bit 8 v), ucast v]"

definition binary_Write_uint32 :: "byte list \<Rightarrow> 32 word \<Rightarrow> error + byte list" where
  "binary_Write_uint32 buf v = Inr (buf @ PutUint32 v)"

definition binary_Write_int64 :: "byte list \<Rightarrow> 64 word \<Rightarrow> error + byte list" where
  "binary_Write_int64 buf v = Inr (buf @ PutUint64 v)"

definition WriteString :: "byte list \<Rightarrow> string \<Rightarrow> error + byte list" where
  "WriteString buf s = Inr (buf @ bytes_of s)"

text \<open>\<open>uint32(len(s))\<close>: the length, truncated to 32 bits.\<close>

definition uint32_len :: "'a list \<Rightarrow> 32 word" where
  "uint32_len xs = of_nat (length xs)"

text \<open>
  \<open>t.UnixNano()\<close>: the nanoseconds since the epoch as an \<open>int64\<close>; Go computes
  \<open>sec * 1e9 + nsec\<close> in wrapping 64-bit arithmetic.
\<close>

definition UnixNano :: "time \<Rightarrow> 64 word" where
  "UnixNano t = word_of_int t"

text \<open>
  \<open>sort.Strings\<close> on a copy: the ascending arrangement of the entries. Equal strings are
  indistinguishable, so the result does not depend on the sorting algorithm.
\<close>

definition sort_Strings :: "string list \<Rightarrow> string list" where
  "sort_Strings xs = sort xs"

subsection \<open>writeString, serializeClaimContent, ComputeCID, VerifyCID, NewClaim\<close>

definition writeString :: "byte list \<Rightarrow> string \<Rightarrow> error + byte list" where
  "writeString buf s =
     (case binary_Write_uint32 buf (uint32_len s) of
        Inl err \<Rightarrow> Inl err
      | Inr buf1 \<Rightarrow>
          (case WriteString buf1 s of
             Inl err \<Rightarrow> Inl err
           | Inr buf2 \<Rightarrow> Inr buf2))"

text \<open>The loop \<open>for _, e := range sortedEvidence\<close>, stopping at the first error.\<close>

fun writeStrings :: "byte list \<Rightarrow> string list \<Rightarrow> error + byte list" where
  "writeStrings buf [] = Inr buf"
| "writeStrings buf (e # es) =
     (case writeString buf e of
        Inl err \<Rightarrow> Inl err
      | Inr buf1 \<Rightarrow> writeStrings buf1 es)"

definition serializeClaimContent :: "Claim \<Rightarrow> error + byte list" where
  "serializeClaimContent claim =
     (case writeString [] (Subject (Statement claim)) of Inl err \<Rightarrow> Inl err | Inr b1 \<Rightarrow>
     (case writeString b1 (Predicate (Statement claim)) of Inl err \<Rightarrow> Inl err | Inr b2 \<Rightarrow>
     (case writeString b2 (Object (Statement claim)) of Inl err \<Rightarrow> Inl err | Inr b3 \<Rightarrow>
     (case writeString b3 (Statement.Domain' (Statement claim)) of Inl err \<Rightarrow> Inl err | Inr b4 \<Rightarrow>
     (let sortedEvidence = sort_Strings (Evidence claim) in
     (case binary_Write_uint32 b4 (uint32_len sortedEvidence) of Inl err \<Rightarrow> Inl err | Inr b5 \<Rightarrow>
     (case writeStrings b5 sortedEvidence of Inl err \<Rightarrow> Inl err | Inr b6 \<Rightarrow>
     (case writeString b6 (TimeEvent claim) of Inl err \<Rightarrow> Inl err | Inr b7 \<Rightarrow>
     (case binary_Write_int64 b7 (UnixNano (Created claim)) of Inl err \<Rightarrow> Inl err | Inr b8 \<Rightarrow>
      Inr b8)))))))))"

text \<open>
  \<open>ComputeCID\<close> takes the two calls into the multihash and CID libraries as parameters:
  \<open>mhsum data\<close> is \<open>multihash.Sum(data, multihash.SHA2_256, -1)\<close> (\<open>None\<close> when it
  returns an error) and \<open>cidstr mh\<close> is \<open>cid.NewCidV1(cid.Raw, mh).String()\<close>.
  A \<open>*Claim\<close> is a \<^typ>\<open>Claim option\<close>, \<open>None\<close> for \<open>nil\<close>.
\<close>

definition ComputeCID ::
  "(byte list \<Rightarrow> byte list option) \<Rightarrow> (byte list \<Rightarrow> string) \<Rightarrow> Claim option \<Rightarrow> error + string" where
  "ComputeCID mhsum cidstr claimp =
     (case claimp of
        None \<Rightarrow> Inl NilClaim
      | Some claim \<Rightarrow>
          (case serializeClaimContent claim of
             Inl err \<Rightarrow> Inl (SerializeFailed err)
           | Inr data \<Rightarrow>
               (case mhsum data of
                  None \<Rightarrow> Inl MultihashFailed
                | Some mh \<Rightarrow> Inr (cidstr mh))))"

definition VerifyCID ::
  "(byte list \<Rightarrow> byte list option) \<Rightarrow> (byte list \<Rightarrow> string) \<Rightarrow> Claim option \<Rightarrow> error + unit" where
  "VerifyCID mhsum cidstr claimp =
     (case claimp of
        None \<Rightarrow> Inl NilClaim
      | Some claim \<Rightarrow>
          (case ComputeCID mhsum cidstr (Some claim) of
             Inl err \<Rightarrow> Inl (ComputeCIDFailed err)
           | Inr computed \<Rightarrow>
               if ID claim \<noteq> computed then Inl (CIDMismatch computed (ID claim))
               else Inr ()))"

text \<open>\<open>NewClaim\<close>; \<open>now\<close> is the value of \<open>time.Now().UTC()\<close>.\<close>

definition NewClaim ::
  "(byte list \<Rightarrow> byte list option) \<Rightarrow> (byte list \<Rightarrow> string) \<Rightarrow> time \<Rightarrow>
   Statement \<Rightarrow> string list \<Rightarrow> string \<Rightarrow> error + Claim" where
  "NewClaim mhsum cidstr now statement evidence timeEvent =
     (let claim = \<lparr> ID = [], Statement = statement, Evidence = evidence, TimeEvent = timeEvent,
                     Witnesses = [], Created = now, Metadata = Map.empty \<rparr>
      in case ComputeCID mhsum cidstr (Some claim) of
           Inl err \<Rightarrow> Inl err
         | Inr cid \<Rightarrow> Inr (claim\<lparr>ID := cid\<rparr>))"

subsection \<open>The canonical hash input, as the specification words it\<close>

text \<open>
  The \<open>k\<close>-byte big-endian representation of a natural number: its \<open>k\<close> low-order
  bytes, most significant first. It denotes the number itself when that is below
  \<open>256 ^ k\<close>, and the number modulo \<open>256 ^ k\<close> in general (lemma
  \<open>be_val_be_bytes\<close>).
\<close>

fun be_bytes :: "nat \<Rightarrow> nat \<Rightarrow> byte list" where
  "be_bytes 0 n = []"
| "be_bytes (Suc k) n = be_bytes k (n div 256) @ [of_nat (n mod 256)]"

text \<open>The number a big-endian byte sequence denotes.\<close>

definition be_val :: "byte list \<Rightarrow> nat" where
  "be_val bs = foldl (\<lambda>acc b. 256 * acc + unat b) 0 bs"

text \<open>A string as a 4-byte big-endian length prefix followed by its raw bytes.\<close>

definition length_prefixed :: "string \<Rightarrow> byte list" where
  "length_prefixed s = be_bytes 4 (length s) @ bytes_of s"

text \<open>A signed 64-bit integer in two's complement: \<open>t\<close> itself when non-negative,
  \<open>2^64 + t\<close> when negative; both are \<open>t mod 2^64\<close>.\<close>

definition signed64_be :: "int \<Rightarrow> byte list" where
  "signed64_be t = be_bytes 8 (nat (t mod 2 ^ 64))"

definition canonical_hash_input :: "Claim \<Rightarrow> byte list" where
  "canonical_hash_input c =
     length_prefixed (Subject (Statement c)) @
     length_prefixed (Predicate (Statement c)) @
     length_prefixed (Object (Statement c)) @
     length_prefixed (Statement.Domain' (Statement c)) @
     be_bytes 4 (length (Evidence c)) @
     concat (map length_prefixed (sort (Evidence c))) @
     length_prefixed (TimeEvent c) @
     signed64_be (Created c)"

section \<open>Attestation protocol (\<open>claim/witness.go\<close>)\<close>

subsection \<open>\<open>encoding/hex\<close>\<close>

text \<open>
  \<open>hex.EncodeToString\<close> writes, for each byte \<open>v\<close>, \<open>hextable[v >> 4]\<close> and
  \<open>hextable[v & 0x0f]\<close> with \<open>hextable = "0123456789abcdef"\<close>.
\<close>

definition hextable :: string where
  "hextable = ''0123456789abcdef''"

fun hex_EncodeToString :: "byte list \<Rightarrow> string" where
  "hex_EncodeToString [] = []"
| "hex_EncodeToString (v # vs) =
     hextable ! unat (drop_bit 4 v) # hextable ! unat (v AND 0x0f) # hex_EncodeToString vs"

text \<open>
  \<open>fromHexChar\<close>: the value of a hexadecimal digit, in either case; \<open>None\<close> for any
  other byte.
\<close>

definition fromHexChar :: "char \<Rightarrow> byte option" where
  "fromHexChar c =
     (if CHR ''0'' \<le> c \<and> c \<le> CHR ''9'' then Some (of_char c - of_char CHR ''0'')
      else if CHR ''a'' \<le> c \<and> c \<le> CHR ''f'' then Some (of_char c - of_char CHR ''a'' + 10)
      else if CHR ''A'' \<le> c \<and> c \<le> CHR ''F'' then Some (of_char c - of_char CHR ''A'' + 10)
      else None)"

text \<open>
  \<open>hex.DecodeString\<close>: pairs of digits from the left, \<open>InvalidByteError\<close> at the first
  byte that is no digit, \<open>ErrLength\<close> for an odd length whose bytes are all digits.
  The bytes decoded before an error are dropped, as both callers drop them.
\<close>

fun hex_DecodeString :: "string \<Rightarrow> error + byte list" where
  "hex_DecodeString [] = Inr []"
| "hex_DecodeString [p] =
     (case fromHexChar p of None \<Rightarrow> Inl (InvalidByteError p) | Some a \<Rightarrow> Inl ErrLength)"
| "hex_DecodeString (p # q # rest) =
     (case fromHexChar p of
        None \<Rightarrow> Inl (InvalidByteError p)
      | Some a \<Rightarrow>
          (case fromHexChar q of
             None \<Rightarrow> Inl (InvalidByteError q)
           | Some b \<Rightarrow>
               (case hex_DecodeString rest of
                  Inl err \<Rightarrow> Inl err
                | Inr bs \<Rightarrow> Inr ((push_bit 4 a OR b) # bs))))"

subsection \<open>Witness constructors\<close>

definition PublicKeySize :: nat where
  "PublicKeySize = 32"

text \<open>
  \<open>GenerateWitness\<close>: \<open>keygen\<close> is the result of \<open>ed25519.GenerateKey(rand.Reader)\<close>,
  the pair \<open>(pub, priv)\<close>, or \<open>None\<close> when the entropy source fails.
\<close>

definition GenerateWitness :: "(byte list \<times> byte list) option \<Rightarrow> error + Witness" where
  "GenerateWitness keygen =
     (case keygen of
        None \<Rightarrow> Inl KeygenFailed
      | Some (pub, priv) \<Rightarrow>
          Inr \<lparr> Witness.ID = hex_EncodeToString pub, PublicKey = pub, PrivateKey = Some priv,
                Witness.Metadata = Map.empty \<rparr>)"

definition WitnessFromPublicKey :: "byte list \<Rightarrow> Witness" where
  "WitnessFromPublicKey pubKey =
     \<lparr> Witness.ID = hex_EncodeToString pubKey, PublicKey = pubKey, PrivateKey = None,
       Witness.Metadata = Map.empty \<rparr>"

definition WitnessFromID :: "string \<Rightarrow> error + Witness" where
  "WitnessFromID wid =
     (case hex_DecodeString wid of
        Inl err \<Rightarrow> Inl (InvalidWitnessID err)
      | Inr pubBytes \<Rightarrow>
          if length pubBytes \<noteq> PublicKeySize
          then Inl (InvalidKeyLengthGot (length pubBytes) PublicKeySize)
          else Inr \<lparr> Witness.ID = wid, PublicKey = pubBytes, PrivateKey = None,
                     Witness.Metadata = Map.empty \<rparr>)"

subsection \<open>VerifyAttestation and AddAttestation\<close>

text \<open>
  \<open>verify pub msg sig\<close> is \<open>ed25519.Verify(pub, msg, sig)\<close>; it is called only with a
  key of \<open>PublicKeySize\<close> bytes.
\<close>

definition VerifyAttestation ::
  "(byte list \<Rightarrow> byte list \<Rightarrow> byte list \<Rightarrow> bool) \<Rightarrow> Claim option \<Rightarrow> Attestation option \<Rightarrow> error + unit" where
  "VerifyAttestation verify claimp attp =
     (case claimp of
        None \<Rightarrow> Inl NilClaim
      | Some claim \<Rightarrow>
          (case attp of
             None \<Rightarrow> Inl NilAttestation
           | Some attestation \<Rightarrow>
               (case hex_DecodeString (Attestation.WitnessID attestation) of
                  Inl err \<Rightarrow> Inl (InvalidWitnessID err)
                | Inr pubBytes \<Rightarrow>
                    if length pubBytes \<noteq> PublicKeySize then Inl InvalidKeyLength
                    else if \<not> verify pubBytes (bytes_of (Claim.ID claim)) (Signature attestation)
                    then Inl InvalidSignature
                    else Inr ())))"

text \<open>
  The duplicate check of \<open>AddAttestation\<close>, the loop
  \<open>for _, existing := range c.Witnesses\<close>: \<open>True\<close> when it returns the error.
\<close>

fun already_attested :: "Attestation list \<Rightarrow> string \<Rightarrow> bool" where
  "already_attested [] w = False"
| "already_attested (existing # rest) w =
     (if Attestation.WitnessID existing = w then True else already_attested rest w)"

text \<open>
  \<open>AddAttestation\<close> mutates the receiver: the model returns the claim after the call
  together with the error (\<open>None\<close> for a nil error). Once \<open>VerifyAttestation\<close> has
  returned nil both pointers are known to be non-nil; the last branch is never taken.
\<close>

definition AddAttestation ::
  "(byte list \<Rightarrow> byte list \<Rightarrow> byte list \<Rightarrow> bool) \<Rightarrow> Claim option \<Rightarrow> Attestation option \<Rightarrow>
   Claim option \<times> error option" where
  "AddAttestation verify cp attp =
     (case VerifyAttestation verify cp attp of
        Inl err \<Rightarrow> (cp, Some err)
      | Inr u \<Rightarrow>
          (case (cp, attp) of
             (Some c, Some attestation) \<Rightarrow>
               if already_attested (Witnesses c) (Attestation.WitnessID attestation)
               then (cp, Some (AlreadyAttested (Attestation.WitnessID attestation)))
               else (Some (c\<lparr>Witnesses := Witnesses c @ [attestation]\<rparr>), None)
           | _ \<Rightarrow> (cp, Some NilClaim)))"

section \<open>Reputation engine (\<open>claim/reputation.go\<close>)\<close>

subsection \<open>Library primitives: time and float64\<close>

definition float64 :: "int64 \<Rightarrow> real" where
  "float64 n = real_of_int (sint n)"

text \<open>
  \<open>t.Sub(u)\<close> for two wall-clock times: the difference as a \<open>Duration\<close> (\<open>int64\<close>
  nanoseconds), saturated at the least and the greatest \<open>Duration\<close>.
  \<open>time.Since(u)\<close> is \<open>time.Now().Sub(u)\<close>; the clock reading \<open>now\<close> is a parameter.
\<close>

definition time_Sub :: "time \<Rightarrow> time \<Rightarrow> int" where
  "time_Sub t u =
     (if t - u < - (2 ^ 63) then - (2 ^ 63)
      else if 2 ^ 63 - 1 < t - u then 2 ^ 63 - 1
      else t - u)"

definition time_Since :: "time \<Rightarrow> time \<Rightarrow> int" where
  "time_Since now u = time_Sub now u"

text \<open>Go's integer \<open>/\<close> and \<open>%\<close> truncate towards zero.\<close>

definition go_quot :: "int \<Rightarrow> int \<Rightarrow> int" where
  "go_quot a b = sgn a * sgn b * (\<bar>a\<bar> div \<bar>b\<bar>)"

definition go_rem :: "int \<Rightarrow> int \<Rightarrow> int" where
  "go_rem a b = a - b * go_quot a b"

text \<open>
  \<open>d.Hours()\<close>: \<open>hour := d / Hour; nsec := d % Hour;
  return float64(hour) + float64(nsec)/(60*60*1e9)\<close>.
\<close>

definition Hour :: int where
  "Hour = 3600000000000"

definition Hours :: "int \<Rightarrow> real" where
  "Hours d = real_of_int (go_quot d Hour) + real_of_int (go_rem d Hour) / (60 * 60 * 1000000000)"

text \<open>The zero \<open>time.Time\<close>: January 1, year 1, 00:00:00 UTC.\<close>

definition zero_Time :: time where
  "zero_Time = - 62135596800000000000"

subsection \<open>The store\<close>

text \<open>
  \<open>GetRecord\<close> returns a copy of the record whose \<open>Domains\<close> map holds a copy of each
  entry.
\<close>

definition GetRecord :: "ReputationStore \<Rightarrow> string \<Rightarrow> ReputationRecord option" where
  "GetRecord rs witnessID =
     (case rs witnessID of
        None \<Rightarrow> None
      | Some record \<Rightarrow>
          Some (record\<lparr>Domains := (\<lambda>k. case Domains record k of None \<Rightarrow> None | Some v \<Rightarrow> Some v)\<rparr>))"

text \<open>
  \<open>RecordAttestation\<close> reads the clock twice: \<open>now1\<close> for \<open>FirstSeen\<close> of a new
  record, \<open>now2\<close> for \<open>LastSeen\<close>.
\<close>

definition RecordAttestation ::
  "time \<Rightarrow> time \<Rightarrow> ReputationStore \<Rightarrow> string \<Rightarrow> string \<Rightarrow> ReputationStore" where
  "RecordAttestation now1 now2 rs witnessID domain =
     (let record0 =
            (case rs witnessID of
               None \<Rightarrow>
                 \<lparr> ReputationRecord.WitnessID = witnessID, ReputationRecord.TotalClaims = 0,
                   ReputationRecord.AgreedClaims = 0, ReputationRecord.DisputedClaims = 0,
                   Domains = Map.empty, FirstSeen = now1, LastSeen = zero_Time \<rparr>
             | Some record \<Rightarrow> record);
          record1 = record0\<lparr>ReputationRecord.TotalClaims := ReputationRecord.TotalClaims record0 + 1,
                            LastSeen := now2\<rparr>;
          record2 =
            (if domain \<noteq> [] then
               (let domainRep =
                      (case Domains record1 domain of
                         None \<Rightarrow>
                           \<lparr> DomainReputation.Domain' = domain, DomainReputation.TotalClaims = 0,
                             DomainReputation.AgreedClaims = 0, DomainReputation.DisputedClaims = 0 \<rparr>
                       | Some d \<Rightarrow> d)
                in record1\<lparr>Domains := (Domains record1)
                     (domain \<mapsto> domainRep\<lparr>DomainReputation.TotalClaims :=
                                   DomainReputation.TotalClaims domainRep + 1\<rparr>)\<rparr>)
             else record1)
      in rs(witnessID \<mapsto> record2))"

definition RecordAgreement :: "ReputationStore \<Rightarrow> string \<Rightarrow> string \<Rightarrow> ReputationStore" where
  "RecordAgreement rs witnessID domain =
     (case rs witnessID of
        None \<Rightarrow> rs
      | Some record \<Rightarrow>
          (let record1 = record\<lparr>ReputationRecord.AgreedClaims :=
                                   ReputationRecord.AgreedClaims record + 1\<rparr>;
               record2 =
                 (if domain \<noteq> [] then
                    (case Domains record1 domain of
                       Some domainRep \<Rightarrow>
                         record1\<lparr>Domains := (Domains record1)
                           (domain \<mapsto> domainRep\<lparr>DomainReputation.AgreedClaims :=
                                         DomainReputation.AgreedClaims domainRep + 1\<rparr>)\<rparr>
                     | None \<Rightarrow> record1)
                  else record1)
           in rs(witnessID \<mapsto> record2)))"

definition RecordDispute :: "ReputationStore \<Rightarrow> string \<Rightarrow> string \<Rightarrow> ReputationStore" where
  "RecordDispute rs witnessID domain =
     (case rs witnessID of
        None \<Rightarrow> rs
      | Some record \<Rightarrow>
          (let record1 = record\<lparr>ReputationRecord.DisputedClaims :=
                                   ReputationRecord.DisputedClaims record + 1\<rparr>;
               record2 =
                 (if domain \<noteq> [] then
                    (case Domains record1 domain of
                       Some domainRep \<Rightarrow>
                         record1\<lparr>Domains := (Domains record1)
                           (domain \<mapsto> domainRep\<lparr>DomainReputation.DisputedClaims :=
                                         DomainReputation.DisputedClaims domainRep + 1\<rparr>)\<rparr>
                     | None \<Rightarrow> record1)
                  else record1)
           in rs(witnessID \<mapsto> record2)))"

subsection \<open>Score, DomainScore, ClaimConfidence\<close>

text \<open>\<open>math.Min\<close> and \<open>math.Max\<close> are \<^const>\<open>min\<close> and \<^const>\<open>max\<close> on the reals.\<close>

definition Score :: "time \<Rightarrow> ReputationRecord \<Rightarrow> real" where
  "Score now rr =
     (if ReputationRecord.TotalClaims rr = 0 then 0.5
      else
        (let accuracy = float64 (ReputationRecord.AgreedClaims rr) / float64 (ReputationRecord.TotalClaims rr);
             disputeRatio = float64 (ReputationRecord.DisputedClaims rr) / float64 (ReputationRecord.TotalClaims rr);
             penalty = disputeRatio * 0.5;
             age = time_Since now (FirstSeen rr);
             longevityBonus = min (Hours age / (24 * 365)) 0.1;
             volumeWeight = min (float64 (ReputationRecord.TotalClaims rr) / 100) 1.0;
             rawScore = accuracy - penalty + longevityBonus;
             score = rawScore * volumeWeight + 0.5 * (1 - volumeWeight)
         in max 0 (min 1 score)))"

definition DomainScore :: "time \<Rightarrow> ReputationRecord \<Rightarrow> string \<Rightarrow> real" where
  "DomainScore now rr domain =
     (case Domains rr domain of
        None \<Rightarrow> Score now rr
      | Some domainRep \<Rightarrow>
          if DomainReputation.TotalClaims domainRep = 0 then Score now rr
          else
            (let accuracy = float64 (DomainReputation.AgreedClaims domainRep)
                              / float64 (DomainReputation.TotalClaims domainRep);
                 disputeRatio = float64 (DomainReputation.DisputedClaims domainRep)
                                  / float64 (DomainReputation.TotalClaims domainRep);
                 penalty = disputeRatio * 0.5;
                 volumeWeight = min (float64 (DomainReputation.TotalClaims domainRep) / 50) 1.0;
                 rawScore = accuracy - penalty;
                 score = rawScore * volumeWeight + Score now rr * (1 - volumeWeight)
             in max 0 (min 1 score)))"

text \<open>
  The loop of \<open>ClaimConfidence\<close> over \<open>claim.Witnesses\<close>, with the accumulators
  \<open>totalWeight\<close> and \<open>weightedSum\<close>. Each iteration reads the clock at most once (inside
  \<open>Score\<close>); \<open>clock i\<close> is the reading during iteration \<open>i\<close>.
\<close>

fun ClaimConfidence_loop ::
  "(nat \<Rightarrow> time) \<Rightarrow> ReputationStore \<Rightarrow> string \<Rightarrow> nat \<Rightarrow> Attestation list \<Rightarrow> real \<times> real \<Rightarrow> real \<times> real" where
  "ClaimConfidence_loop clock store domain i [] (totalWeight, weightedSum) =
     (totalWeight, weightedSum)"
| "ClaimConfidence_loop clock store domain i (att # atts) (totalWeight, weightedSum) =
     (let score =
            (case GetRecord store (Attestation.WitnessID att) of
               Some record \<Rightarrow> DomainScore (clock i) record domain
             | None \<Rightarrow> 0.5);
          weight = 0.5 + score * 0.5
      in ClaimConfidence_loop clock store domain (Suc i) atts
           (totalWeight + weight, weightedSum + score * weight))"

text \<open>The claim and the store are non-nil: the function dereferences both.\<close>

definition ClaimConfidence :: "(nat \<Rightarrow> time) \<Rightarrow> Claim \<Rightarrow> ReputationStore \<Rightarrow> real" where
  "ClaimConfidence clock claim store =
     (if length (Witnesses claim) = 0 then 0
      else
        (case ClaimConfidence_loop clock store (Statement.Domain' (Statement claim)) 0
                (Witnesses claim) (0, 0) of
           (totalWeight, weightedSum) \<Rightarrow>
             if totalWeight = 0 then 0
             else
               (let witnessBonus = min (real (length (Witnesses claim)) / 5) 0.2;
                    confidence = (weightedSum / totalWeight) + witnessBonus
                in max 0 (min 1 confidence))))"

subsection \<open>The confidence formula, as the specification words it\<close>

definition clamp01 :: "real \<Rightarrow> real" where
  "clamp01 x = max 0 (min 1 x)"

text \<open>The average of the scores, each weighted by \<open>0.5 + score * 0.5\<close>.\<close>

definition weighted_average :: "real list \<Rightarrow> real" where
  "weighted_average ss = (\<Sum>s\<leftarrow>ss. s * (0.5 + s * 0.5)) / (\<Sum>s\<leftarrow>ss. 0.5 + s * 0.5)"

definition confidence_of_scores :: "real list \<Rightarrow> real" where
  "confidence_of_scores ss = clamp01 (weighted_average ss + min (real (length ss) / 5) 0.2)"

text \<open>
  The score of each attesting witness, in the order of the list: the neutral \<open>0.5\<close> for
  a witness the store does not know, otherwise the score \<open>domain_score\<close> gives its record.
\<close>

fun witness_scores ::
  "(nat \<Rightarrow> time) \<Rightarrow> ReputationStore \<Rightarrow> string \<Rightarrow> nat \<Rightarrow> Attestation list \<Rightarrow> real list" where
  "witness_scores clock store domain i [] = []"
| "witness_scores clock store domain i (att # atts) =
     (case store (Attestation.WitnessID att) of
        None \<Rightarrow> 0.5
      | Some record \<Rightarrow> DomainScore (clock i) record domain)
     # witness_scores clock store domain (Suc i) atts"

section \<open>Example values\<close>

text \<open>
  Stand-ins for the library parameters and concrete values, used to evaluate the model on
  examples: a multihash that returns its input and a CID string that reads the bytes as
  characters.
\<close>

definition toy_mhsum :: "byte list \<Rightarrow> byte list option" where
  "toy_mhsum data = Some data"

definition toy_cidstr :: "byte list \<Rightarrow> string" where
  "toy_cidstr mh = map (\<lambda>b. char_of (unat b)) mh"

definition example_statement :: Statement where
  "example_statement =
     \<lparr> Subject = ''https://example.com'', Predicate = ''contains'',
       Object = ''hello world'', Statement.Domain' = ''web'' \<rparr>"

definition example_claim :: Claim where
  "example_claim =
     \<lparr> ID = [], Statement = example_statement, Evidence = [''a'', ''b''], TimeEvent = ''t1'',
       Witnesses = [], Created = 1700000000000000000, Metadata = Map.empty \<rparr>"

definition toy_sign :: "byte list \<Rightarrow> byte list \<Rightarrow> byte list" where
  "toy_sign pub msg = pub @ msg"

definition toy_verify :: "byte list \<Rightarrow> byte list \<Rightarrow> byte list \<Rightarrow> bool" where
  "toy_verify pub msg sg = (sg = toy_sign pub msg)"

definition wid_a :: string where
  "wid_a = ''aaaaaaaaaaaaaaaaaaaaaaaaaaaaaaaaaaaaaaaaaaaaaaaaaaaaaaaaaaaaaaaa''"

definition wid_b :: string where
  "wid_b = ''bbbbbbbbbbbbbbbbbbbbbbbbbbbbbbbbbbbbbbbbbbbbbbbbbbbbbbbbbbbbbbbb''"

definition wid_A :: string where
  "wid_A = ''AAAAAAAAAAAAAAAAAAAAAAAAAAAAAAAAAAAAAAAAAAAAAAAAAAAAAAAAAAAAAAAA''"

definition key_a :: "byte list" where
  "key_a = replicate 32 0xAA"

definition key_b :: "byte list" where
  "key_b = replicate 32 0xBB"

definition att_a :: Attestation where
  "att_a = \<lparr> Attestation.WitnessID = wid_a, Signature = toy_sign key_a (bytes_of ''cid1''), Timestamp = 7 \<rparr>"

definition att_a_forged :: Attestation where
  "att_a_forged = \<lparr> Attestation.WitnessID = wid_a, Signature = toy_sign key_a (bytes_of ''cid2''), Timestamp = 8 \<rparr>"

definition att_b :: Attestation where
  "att_b = \<lparr> Attestation.WitnessID = wid_b, Signature = toy_sign key_b (bytes_of ''cid1''), Timestamp = 9 \<rparr>"

definition attested_claim :: Claim where
  "attested_claim = example_claim\<lparr>ID := ''cid1'', Witnesses := [att_a]\<rparr>"

definition example_domain :: DomainReputation where
  "example_domain =
     \<lparr> DomainReputation.Domain' = ''sports'', DomainReputation.TotalClaims = 1,
       DomainReputation.AgreedClaims = 0, DomainReputation.DisputedClaims = 0 \<rparr>"

definition example_record :: ReputationRecord where
  "example_record =
     \<lparr> ReputationRecord.WitnessID = ''w1'', ReputationRecord.TotalClaims = 10,
       ReputationRecord.AgreedClaims = 5, ReputationRecord.DisputedClaims = 2,
       Domains = [''sports'' \<mapsto> example_domain], FirstSeen = 100, LastSeen = 100 \<rparr>"

definition example_store :: ReputationStore where
  "example_store = [''w1'' \<mapsto> example_record]"

definition trusted_record :: ReputationRecord where
  "trusted_record =
     \<lparr> ReputationRecord.WitnessID = wid_a, ReputationRecord.TotalClaims = 100,
       ReputationRecord.AgreedClaims = 100, ReputationRecord.DisputedClaims = 0,
       Domains = [''web'' \<mapsto>
         \<lparr> DomainReputation.Domain' = ''web'', DomainReputation.TotalClaims = 50,
           DomainReputation.AgreedClaims = 0, DomainReputation.DisputedClaims = 50 \<rparr>],
       FirstSeen = 0, LastSeen = 0 \<rparr>"

definition trusted_store :: ReputationStore where
  "trusted_store = [wid_a \<mapsto> trusted_record]"

definition small_claim :: Claim where
  "small_claim =
     \<lparr> ID = [], Statement = \<lparr> Subject = ''s'', Predicate = [], Object = [], Statement.Domain' = [] \<rparr>,
       Evidence = [''b'', ''a''], TimeEvent = [], Witnesses = [], Created = - 1, Metadata = Map.empty \<rparr>"

section \<open>Properties of the claim identity\<close>

subsection \<open>Big-endian encodings\<close>

lemma byte_of_shift:
  "(ucast (drop_bit (8 * k) (v :: 'a::len word)) :: byte) = of_nat (unat v div 256 ^ k mod 256)"
proof -
  have "unat (ucast (drop_bit (8 * k) v) :: byte) = unat v div 256 ^ k mod 256"
    unfolding unsigned_ucast_eq unat_drop_bit_eq
    by (simp add: take_bit_eq_mod drop_bit_eq_div power_mult)
  moreover have "unat (of_nat (unat v div 256 ^ k mod 256) :: byte) = unat v div 256 ^ k mod 256"
    by (simp add: unat_of_nat)
  ultimately show ?thesis
    by (simp add: word_unat_eq_iff)
qed

lemma four: "(4::nat) = Suc (Suc (Suc (Suc 0)))"
  by simp

lemma eight: "(8::nat) = Suc (Suc (Suc (Suc (Suc (Suc (Suc (Suc 0)))))))"
  by simp

lemma div256:
  "(n::nat) div 256 div 256 = n div 65536"
  "(n::nat) div 65536 div 256 = n div 16777216"
  "(n::nat) div 16777216 div 256 = n div 4294967296"
  "(n::nat) div 4294967296 div 256 = n div 1099511627776"
  "(n::nat) div 1099511627776 div 256 = n div 281474976710656"
  "(n::nat) div 281474976710656 div 256 = n div 72057594037927936"
  by (simp_all add: div_mult2_eq[symmetric])

lemma be_bytes_4: "be_bytes 4 n =
  [of_nat (n div 16777216 mod 256), of_nat (n div 65536 mod 256), of_nat (n div 256 mod 256), of_nat (n mod 256)]"
  by (subst four) (simp add: div256)

lemma be_bytes_8: "be_bytes 8 n =
  [of_nat (n div 72057594037927936 mod 256), of_nat (n div 281474976710656 mod 256),
   of_nat (n div 1099511627776 mod 256), of_nat (n div 4294967296 mod 256),
   of_nat (n div 16777216 mod 256), of_nat (n div 65536 mod 256), of_nat (n div 256 mod 256), of_nat (n mod 256)]"
  by (subst eight) (simp add: div256)

lemma PutUint32_be: "PutUint32 v = be_bytes 4 (unat v)"
  unfolding PutUint32_def be_bytes_4
  using byte_of_shift[of 3 v] byte_of_shift[of 2 v] byte_of_shift[of 1 v] byte_of_shift[of 0 v]
  by simp

lemma PutUint64_be: "PutUint64 v = be_bytes 8 (unat v)"
  unfolding PutUint64_def be_bytes_8
  using byte_of_shift[of 7 v] byte_of_shift[of 6 v] byte_of_shift[of 5 v] byte_of_shift[of 4 v]
   byte_of_shift[of 3 v] byte_of_shift[of 2 v] byte_of_shift[of 1 v] byte_of_shift[of 0 v]
  by simp

lemma be_bytes_mod: "be_bytes k (n mod 256 ^ k) = be_bytes k n"
proof (induction k arbitrary: n)
  case 0 show ?case by simp
next
  case (Suc k)
  have a: "n mod 256 ^ Suc k div 256 = (n div 256) mod 256 ^ k"
    by (simp add: div_mult2_eq mod_mult2_eq)
  have b: "n mod 256 ^ Suc k mod 256 = n mod 256"
    by (simp add: mod_mod_cancel)
  show ?case using Suc.IH[of "n div 256"] by (simp add: a b del: power_Suc)
qed

lemma length_be_bytes: "length (be_bytes k n) = k"
  by (induction k arbitrary: n) auto

lemma be_val_append: "be_val (bs @ [b]) = 256 * be_val bs + unat b"
  by (simp add: be_val_def)

lemma be_val_be_bytes: "be_val (be_bytes k n) = n mod 256 ^ k"
proof (induction k arbitrary: n)
  case 0 show ?case by (simp add: be_val_def)
next
  case (Suc k)
  have "unat (of_nat (n mod 256) :: byte) = n mod 256"
    by (simp add: unat_of_nat)
  then show ?case using Suc.IH[of "n div 256"]
    by (simp add: be_val_append mod_mult2_eq)
qed

lemma PutUint32_len: "PutUint32 (uint32_len xs) = be_bytes 4 (length xs)"
  using be_bytes_mod[of 4 "length xs"] by (simp add: PutUint32_be uint32_len_def unat_of_nat)

lemma PutUint64_UnixNano: "PutUint64 (UnixNano t) = signed64_be t"
  by (simp add: PutUint64_be UnixNano_def signed64_be_def unat_eq_nat_uint uint_word_of_int)

subsection \<open>The serializer writes the canonical hash input and never fails\<close>

lemma writeString_eq: "writeString buf s = Inr (buf @ length_prefixed s)"
  by (simp add: writeString_def binary_Write_uint32_def WriteString_def length_prefixed_def PutUint32_len)

lemma writeStrings_eq: "writeStrings buf es = Inr (buf @ concat (map length_prefixed es))"
  by (induction es arbitrary: buf) (simp_all add: writeString_eq)

lemma serializeClaimContent_eq: "serializeClaimContent c = Inr (canonical_hash_input c)"
  unfolding serializeClaimContent_def canonical_hash_input_def sort_Strings_def Let_def
    writeString_eq writeStrings_eq binary_Write_uint32_def binary_Write_int64_def sum.case
    PutUint32_len PutUint64_UnixNano
  by (simp only: append_Nil append_assoc length_sort)

subsection \<open>The serializer on a concrete claim\<close>

text \<open>
  The bytes Go writes for a claim with subject \<open>"s"\<close>, evidence \<open>["b", "a"]\<close>, empty
  predicate, object, domain and time event, created one nanosecond before the epoch.
\<close>

lemma sort_Strings_example:
  "sort_Strings [''b'', ''ab'', ''B'', [], ''a''] = [[], ''B'', ''a'', ''ab'', ''b'']"
  by (simp add: sort_Strings_def)

lemma PutUint32_example: "PutUint32 258 = [0, 0, 1, 2]"
  by (simp add: PutUint32_def drop_bit_eq_div)

lemma serializeClaimContent_example:
  "serializeClaimContent small_claim =
     Inr ([0, 0, 0, 1, 0x73] @ [0, 0, 0, 0] @ [0, 0, 0, 0] @ [0, 0, 0, 0] @
          [0, 0, 0, 2] @ [0, 0, 0, 1, 0x61] @ [0, 0, 0, 1, 0x62] @
          [0, 0, 0, 0] @ [0xFF, 0xFF, 0xFF, 0xFF, 0xFF, 0xFF, 0xFF, 0xFF])"
proof -
  have s: "sort_Strings [''b'', ''a''] = [''a'', ''b'']"
    by (simp add: sort_Strings_def)
  have l: "uint32_len ([] :: string) = 0" "uint32_len ''s'' = 1" "uint32_len ''a'' = 1"
    "uint32_len ''b'' = 1" "uint32_len [''a'', ''b''] = 2"
    by (simp_all add: uint32_len_def)
  have p: "PutUint32 0 = [0, 0, 0, 0]" "PutUint32 1 = [0, 0, 0, 1]" "PutUint32 2 = [0, 0, 0, 2]"
    by (simp_all add: PutUint32_def drop_bit_eq_div)
  have u: "PutUint64 (UnixNano (- 1)) = [0xFF, 0xFF, 0xFF, 0xFF, 0xFF, 0xFF, 0xFF, 0xFF]"
    by (simp add: PutUint64_UnixNano signed64_be_def be_bytes_8)
  show ?thesis
    by (simp add: serializeClaimContent_def small_claim_def s l p u writeString_def
        binary_Write_uint32_def binary_Write_int64_def WriteString_def bytes_of_def)
qed

subsection \<open>Identity is a function of the canonical hash input\<close>

lemma ComputeCID_eq:
  "ComputeCID mhsum cidstr (Some c) =
     (case mhsum (canonical_hash_input c) of None \<Rightarrow> Inl MultihashFailed | Some mh \<Rightarrow> Inr (cidstr mh))"
  by (simp add: ComputeCID_def serializeClaimContent_eq)

lemma canonical_hash_input_cong:
  assumes "Statement c' = Statement c" "mset (Evidence c') = mset (Evidence c)"
    "TimeEvent c' = TimeEvent c" "Created c' = Created c"
  shows "canonical_hash_input c' = canonical_hash_input c"
proof -
  have "sort (Evidence c') = sort (Evidence c)"
    using assms(2) by (intro properties_for_sort) simp_all
  moreover have "length (Evidence c') = length (Evidence c)"
    using assms(2) by (rule mset_eq_length)
  ultimately show ?thesis
    using assms by (simp add: canonical_hash_input_def)
qed

text \<open>
  Claim C1. \<open>ComputeCID\<close> does not depend on the order of the evidence sequence nor on
  the witnesses list or the metadata map: replacing the evidence by any permutation of it,
  and the witnesses and metadata by anything, gives the same result (the same identifier,
  or the same error).
\<close>

theorem compute_id_ignores_order_witnesses_metadata:
  assumes "mset ev' = mset (Evidence c)"
  shows "ComputeCID mhsum cidstr (Some (c\<lparr>Evidence := ev', Witnesses := ws, Metadata := md\<rparr>))
       = ComputeCID mhsum cidstr (Some c)"
proof -
  have "canonical_hash_input (c\<lparr>Evidence := ev', Witnesses := ws, Metadata := md\<rparr>)
      = canonical_hash_input c"
    by (rule canonical_hash_input_cong) (simp_all add: assms)
  then show ?thesis
    by (simp only: ComputeCID_eq)
qed

theorem compute_id_ignores_order_witnesses_metadata_witness:
  "mset [''b'', ''a''] = mset (Evidence example_claim) \<and>
   ComputeCID toy_mhsum toy_cidstr
     (Some (example_claim\<lparr>Evidence := [''b'', ''a''],
              Witnesses := [\<lparr>Attestation.WitnessID = ''w'', Signature = [1, 2], Timestamp = 5\<rparr>],
              Metadata := [''k'' \<mapsto> ''v'']\<rparr>))
   = ComputeCID toy_mhsum toy_cidstr (Some example_claim)"
proof -
  have h: "mset [''b'', ''a''] = mset (Evidence example_claim)"
    by (simp add: example_claim_def)
  show ?thesis
    using h compute_id_ignores_order_witnesses_metadata [OF h] by simp
qed

text \<open>
  Claim C2. The byte sequence that is hashed is exactly the canonical hash input:
  subject, predicate, object and domain, each as a 4-byte big-endian length followed by
  the raw bytes; the 4-byte big-endian count of evidence entries and the entries in
  ascending byte-wise order, each length-prefixed; the length-prefixed time event; the
  creation time in nanoseconds since the epoch as a signed 64-bit big-endian integer.
  The serializer never fails, and the identifier is the CID string of the multihash of
  these bytes.
\<close>

theorem canonical_hash_input_layout:
  "serializeClaimContent c = Inr (canonical_hash_input c) \<and>
   ComputeCID mhsum cidstr (Some c) =
     (case mhsum (canonical_hash_input c) of
        None \<Rightarrow> Inl MultihashFailed
      | Some mh \<Rightarrow> Inr (cidstr mh))"
  by (simp add: ComputeCID_def serializeClaimContent_eq)

text \<open>
  Claim C3. Whenever \<open>NewClaim\<close> succeeds, \<open>VerifyCID\<close> succeeds on the claim it
  returned.
\<close>

theorem new_claim_verifies:
  assumes "NewClaim mhsum cidstr now statement evidence timeEvent = Inr c"
  shows "VerifyCID mhsum cidstr (Some c) = Inr ()"
proof -
  define c0 where "c0 = \<lparr> ID = [], Statement = statement, Evidence = evidence,
    TimeEvent = timeEvent, Witnesses = [], Created = now, Metadata = Map.empty \<rparr>"
  from assms obtain cid where cid: "ComputeCID mhsum cidstr (Some c0) = Inr cid"
    and c: "c = c0\<lparr>ID := cid\<rparr>"
    by (auto simp: NewClaim_def c0_def Let_def split: sum.splits)
  have "canonical_hash_input c = canonical_hash_input c0"
    unfolding c by (rule canonical_hash_input_cong) simp_all
  then have "ComputeCID mhsum cidstr (Some c) = Inr cid"
    using cid by (simp add: ComputeCID_eq)
  then show ?thesis
    by (simp add: VerifyCID_def c)
qed

theorem new_claim_verifies_witness:
  "NewClaim toy_mhsum toy_cidstr 1700000000000000000 example_statement [''a'', ''b''] ''t1''
     = Inr (example_claim\<lparr>ID := toy_cidstr (canonical_hash_input example_claim)\<rparr>) \<and>
   VerifyCID toy_mhsum toy_cidstr
     (Some (example_claim\<lparr>ID := toy_cidstr (canonical_hash_input example_claim)\<rparr>)) = Inr ()"
proof -
  have h: "NewClaim toy_mhsum toy_cidstr 1700000000000000000 example_statement [''a'', ''b''] ''t1''
     = Inr (example_claim\<lparr>ID := toy_cidstr (canonical_hash_input example_claim)\<rparr>)"
    by (simp add: NewClaim_def ComputeCID_eq toy_mhsum_def example_claim_def)
  show ?thesis
    using h new_claim_verifies [OF h] by simp
qed

section \<open>Properties of the attestation protocol\<close>

lemma fromHexChar_a: "fromHexChar CHR ''a'' = Some 10"
  by (simp add: fromHexChar_def)

lemma fromHexChar_b: "fromHexChar CHR ''b'' = Some 11"
  by (simp add: fromHexChar_def)

lemma fromHexChar_A: "fromHexChar CHR ''A'' = Some 10"
  by (simp add: fromHexChar_def)

lemma decode_wid_a: "hex_DecodeString wid_a = Inr key_a"
  by (simp add: wid_a_def key_a_def fromHexChar_a eval_nat_numeral)

lemma decode_wid_b: "hex_DecodeString wid_b = Inr key_b"
  by (simp add: wid_b_def key_b_def fromHexChar_b eval_nat_numeral)

lemma decode_wid_A: "hex_DecodeString wid_A = Inr key_a"
  by (simp add: wid_A_def key_a_def fromHexChar_A eval_nat_numeral)

lemma encode_AA: "hex_EncodeToString (0xAA # vs) = CHR ''a'' # CHR ''a'' # hex_EncodeToString vs"
proof -
  have "unat (drop_bit 4 (0xAA :: byte)) = 10" "unat ((0xAA :: byte) AND 0x0f) = 10"
    by (simp_all add: drop_bit_eq_div)
  then show ?thesis
    by (simp add: hextable_def)
qed

lemma encode_key_a: "hex_EncodeToString key_a = wid_a"
  by (simp add: wid_a_def key_a_def eval_nat_numeral encode_AA del: hex_EncodeToString.simps(2))

lemma already_attested_iff:
  "already_attested ws w \<longleftrightarrow> w \<in> Attestation.WitnessID ` set ws"
  by (induction ws) auto

lemma VerifyAttestation_bad_signature:
  assumes "hex_DecodeString (Attestation.WitnessID a) = Inr pk" "length pk = PublicKeySize"
    "\<not> verify pk (bytes_of (Claim.ID c)) (Signature a)"
  shows "VerifyAttestation verify (Some c) (Some a) = Inl InvalidSignature"
  using assms by (simp add: VerifyAttestation_def)

lemma VerifyAttestation_Inr_D:
  assumes "VerifyAttestation verify cp attp = Inr u"
  shows "\<exists>c a. cp = Some c \<and> attp = Some a"
  using assms by (auto simp: VerifyAttestation_def split: option.splits)

lemma AddAttestation_failure_keeps_claim:
  assumes "snd (AddAttestation verify cp attp) \<noteq> None"
  shows "fst (AddAttestation verify cp attp) = cp"
proof (cases "VerifyAttestation verify cp attp")
  case (Inl e)
  then show ?thesis by (simp add: AddAttestation_def)
next
  case (Inr u)
  then obtain c a where "cp = Some c" "attp = Some a"
    using VerifyAttestation_Inr_D by blast
  with Inr assms show ?thesis
    by (simp add: AddAttestation_def split: if_splits)
qed

text \<open>
  Claim C4. \<open>AddAttestation\<close> verifies before it looks for a duplicate: an attestation
  whose verification fails is rejected with the verification error, and one whose signature
  does not verify under its decoded key with \<open>InvalidSignature\<close>, whether or not its
  witness id is already among the claim's witnesses. A verified attestation of a witness
  already present is rejected as a duplicate; a verified attestation of a new witness is
  appended at the end. Whenever an error is returned the claim is unchanged.
\<close>

theorem add_attestation_verifies_before_duplicate_check:
  "(VerifyAttestation verify (Some c) (Some a) = Inl e \<longrightarrow>
      AddAttestation verify (Some c) (Some a) = (Some c, Some e)) \<and>
   (hex_DecodeString (Attestation.WitnessID a) = Inr pk \<and> length pk = PublicKeySize \<and>
    \<not> verify pk (bytes_of (Claim.ID c)) (Signature a) \<longrightarrow>
      AddAttestation verify (Some c) (Some a) = (Some c, Some InvalidSignature)) \<and>
   (VerifyAttestation verify (Some c) (Some a) = Inr () \<and>
    Attestation.WitnessID a \<in> Attestation.WitnessID ` set (Witnesses c) \<longrightarrow>
      AddAttestation verify (Some c) (Some a)
        = (Some c, Some (AlreadyAttested (Attestation.WitnessID a)))) \<and>
   (VerifyAttestation verify (Some c) (Some a) = Inr () \<and>
    Attestation.WitnessID a \<notin> Attestation.WitnessID ` set (Witnesses c) \<longrightarrow>
      AddAttestation verify (Some c) (Some a)
        = (Some (c\<lparr>Witnesses := Witnesses c @ [a]\<rparr>), None)) \<and>
   (snd (AddAttestation verify cp attp) \<noteq> None \<longrightarrow>
      fst (AddAttestation verify cp attp) = cp)"
proof (intro conjI impI)
  assume "VerifyAttestation verify (Some c) (Some a) = Inl e"
  then show "AddAttestation verify (Some c) (Some a) = (Some c, Some e)"
    by (simp add: AddAttestation_def)
next
  assume "hex_DecodeString (Attestation.WitnessID a) = Inr pk \<and> length pk = PublicKeySize \<and>
    \<not> verify pk (bytes_of (Claim.ID c)) (Signature a)"
  then have "VerifyAttestation verify (Some c) (Some a) = Inl InvalidSignature"
    by (simp add: VerifyAttestation_bad_signature)
  then show "AddAttestation verify (Some c) (Some a) = (Some c, Some InvalidSignature)"
    by (simp add: AddAttestation_def)
next
  assume "VerifyAttestation verify (Some c) (Some a) = Inr () \<and>
    Attestation.WitnessID a \<in> Attestation.WitnessID ` set (Witnesses c)"
  then show "AddAttestation verify (Some c) (Some a)
        = (Some c, Some (AlreadyAttested (Attestation.WitnessID a)))"
    by (simp add: AddAttestation_def already_attested_iff)
next
  assume "VerifyAttestation verify (Some c) (Some a) = Inr () \<and>
    Attestation.WitnessID a \<notin> Attestation.WitnessID ` set (Witnesses c)"
  then show "AddAttestation verify (Some c) (Some a)
        = (Some (c\<lparr>Witnesses := Witnesses c @ [a]\<rparr>), None)"
    by (simp add: AddAttestation_def already_attested_iff)
next
  assume "snd (AddAttestation verify cp attp) \<noteq> None"
  then show "fst (AddAttestation verify cp attp) = cp"
    by (rule AddAttestation_failure_keeps_claim)
qed

lemma verify_att_a: "VerifyAttestation toy_verify (Some attested_claim) (Some att_a) = Inr ()"
  by (simp add: VerifyAttestation_def att_a_def attested_claim_def decode_wid_a
      toy_verify_def PublicKeySize_def key_a_def)

lemma verify_att_b: "VerifyAttestation toy_verify (Some attested_claim) (Some att_b) = Inr ()"
  by (simp add: VerifyAttestation_def att_b_def attested_claim_def decode_wid_b
      toy_verify_def PublicKeySize_def key_b_def)

lemma verify_att_a_forged:
  "VerifyAttestation toy_verify (Some attested_claim) (Some att_a_forged) = Inl InvalidSignature"
  by (simp add: VerifyAttestation_def att_a_forged_def attested_claim_def decode_wid_a
      toy_verify_def toy_sign_def PublicKeySize_def key_a_def bytes_of_def)

theorem add_attestation_verifies_before_duplicate_check_witness:
  "Attestation.WitnessID att_a_forged \<in> Attestation.WitnessID ` set (Witnesses attested_claim) \<and>
   AddAttestation toy_verify (Some attested_claim) (Some att_a_forged)
     = (Some attested_claim, Some InvalidSignature) \<and>
   AddAttestation toy_verify (Some attested_claim) (Some att_a)
     = (Some attested_claim, Some (AlreadyAttested wid_a)) \<and>
   AddAttestation toy_verify (Some attested_claim) (Some att_b)
     = (Some (attested_claim\<lparr>Witnesses := [att_a, att_b]\<rparr>), None) \<and>
   fst (AddAttestation toy_verify (Some attested_claim) (Some att_a)) = Some attested_claim"
proof -
  have dup: "Attestation.WitnessID att_a_forged \<in> Attestation.WitnessID ` set (Witnesses attested_claim)"
    "Attestation.WitnessID att_a \<in> Attestation.WitnessID ` set (Witnesses attested_claim)"
    by (simp_all add: attested_claim_def att_a_def att_a_forged_def)
  have new: "Attestation.WitnessID att_b \<notin> Attestation.WitnessID ` set (Witnesses attested_claim)"
    by (simp add: attested_claim_def att_a_def att_b_def wid_a_def wid_b_def)
  have bad: "hex_DecodeString (Attestation.WitnessID att_a_forged) = Inr key_a \<and>
      length key_a = PublicKeySize \<and>
      \<not> toy_verify key_a (bytes_of (Claim.ID attested_claim)) (Signature att_a_forged)"
    by (simp add: att_a_forged_def decode_wid_a key_a_def PublicKeySize_def toy_verify_def
        toy_sign_def attested_claim_def bytes_of_def)
  note T = add_attestation_verifies_before_duplicate_check
  have 1: "AddAttestation toy_verify (Some attested_claim) (Some att_a_forged)
     = (Some attested_claim, Some InvalidSignature)"
    using T [of toy_verify attested_claim att_a_forged InvalidSignature key_a] bad verify_att_a_forged
    by blast
  have 2: "AddAttestation toy_verify (Some attested_claim) (Some att_a)
     = (Some attested_claim, Some (AlreadyAttested wid_a))"
    using T [of toy_verify attested_claim att_a] verify_att_a dup(2)
    by (simp add: att_a_def)
  have 3: "AddAttestation toy_verify (Some attested_claim) (Some att_b)
     = (Some (attested_claim\<lparr>Witnesses := [att_a, att_b]\<rparr>), None)"
    using T [of toy_verify attested_claim att_b] verify_att_b new
    by (simp add: attested_claim_def)
  have 4: "fst (AddAttestation toy_verify (Some attested_claim) (Some att_a)) = Some attested_claim"
    using T [of toy_verify attested_claim att_a _ _ "Some attested_claim" "Some att_a"] 2
    by simp
  from dup(1) 1 2 3 4 show ?thesis by blast
qed

text \<open>
  Claim C5. The id of a witness is the hex encoding of its public key. This holds for
  \<open>GenerateWitness\<close> and \<open>WitnessFromPublicKey\<close> (lemmas \<open>GenerateWitness_id\<close>,
  \<open>WitnessFromPublicKey_id\<close> below), which compute the id with \<open>hex.EncodeToString\<close>.
  \<open>WitnessFromID\<close> stores the string it was given, which decodes to the stored key
  (lemma \<open>WitnessFromID_id_decodes\<close>) but need not be its encoding: \<open>hex.DecodeString\<close> accepts
  upper-case digits, \<open>hex.EncodeToString\<close> writes lower-case ones, so for the id of
  64 letters \<open>A\<close> the stored id differs from the hex encoding of the stored key.
\<close>

theorem witness_from_id_keeps_uppercase_id:
  "WitnessFromID wid_A
     = Inr \<lparr> Witness.ID = wid_A, PublicKey = key_a, PrivateKey = None, Witness.Metadata = Map.empty \<rparr> \<and>
   hex_EncodeToString key_a = wid_a \<and> wid_A \<noteq> wid_a"
  by (simp add: WitnessFromID_def decode_wid_A encode_key_a PublicKeySize_def)
     (simp add: key_a_def wid_A_def wid_a_def)

lemma WitnessFromID_id_decodes:
  "WitnessFromID wid = Inr w \<Longrightarrow>
     Witness.ID w = wid \<and> hex_DecodeString (Witness.ID w) = Inr (PublicKey w) \<and>
     length (PublicKey w) = PublicKeySize"
  by (auto simp: WitnessFromID_def split: sum.splits if_splits)

lemma GenerateWitness_id:
  "GenerateWitness keygen = Inr w \<Longrightarrow> Witness.ID w = hex_EncodeToString (PublicKey w)"
  by (auto simp: GenerateWitness_def split: option.splits)

lemma WitnessFromPublicKey_id:
  "Witness.ID (WitnessFromPublicKey pubKey) = hex_EncodeToString (PublicKey (WitnessFromPublicKey pubKey))"
  by (simp add: WitnessFromPublicKey_def)

section \<open>Properties of the reputation engine\<close>

lemma Score_bounds: "0 \<le> Score now rr \<and> Score now rr \<le> 1"
  by (simp add: Score_def Let_def)

lemma DomainScore_bounds: "0 \<le> DomainScore now rr domain \<and> DomainScore now rr domain \<le> 1"
  by (simp add: DomainScore_def Let_def Score_bounds split: option.splits)

text \<open>
  Claim C6. For every record, at every time and for every domain, \<open>Score\<close> and
  \<open>DomainScore\<close> lie in the closed interval from 0 to 1, and a record whose
  \<open>TotalClaims\<close> is 0 scores exactly 0.5.
\<close>

theorem score_and_domain_score_bounds:
  "0 \<le> Score now rr \<and> Score now rr \<le> 1 \<and>
   0 \<le> DomainScore now rr domain \<and> DomainScore now rr domain \<le> 1 \<and>
   Score now (rr\<lparr>ReputationRecord.TotalClaims := 0\<rparr>) = 0.5"
  using Score_bounds [of now rr] DomainScore_bounds [of now rr domain]
  by (simp add: Score_def)

lemma float64_succ:
  assumes "sint n < 2 ^ 63 - 1"
  shows "float64 (n + 1) = float64 n + 1"
proof -
  have "- (2 ^ 63) \<le> sint n"
    using sint_ge [of n] by simp
  then have "signed_take_bit 63 (sint n + 1) = sint n + 1"
    using assms by (intro signed_take_bit_int_eq_self) simp_all
  then have "sint (n + 1) = sint n + 1"
    by (simp add: sint_word_ariths)
  then show ?thesis
    by (simp add: float64_def)
qed

lemma float64_nonzero:
  assumes "n \<noteq> 0"
  shows "float64 n \<noteq> 0"
proof -
  have "sint n \<noteq> 0"
    using assms by (simp add: signed_eq_0_iff)
  then show ?thesis
    unfolding float64_def by (simp only: of_int_eq_0_iff not_False_eq_True)
qed

text \<open>
  The volume weight has the sign of the total: their quotient is never negative, also
  for a negative total, where \<open>min (t / 100) 1\<close> is \<open>t / 100\<close>.
\<close>

lemma volume_weight_over_total:
  fixes t :: real
  assumes "t \<noteq> 0"
  shows "0 \<le> min (t / 100) 1 / t"
proof (cases "0 < t")
  case True
  then show ?thesis by simp
next
  case False
  with assms have "t < 0" by simp
  then have "min (t / 100) 1 = t / 100"
    by simp
  then show ?thesis
    using assms by simp
qed

text \<open>The blend of a raw score with the neutral 0.5, clamped, as a function of the raw score.\<close>

lemma blend_mono:
  fixes vw :: real
  assumes "raw * vw \<le> raw' * vw"
  shows "max 0 (min 1 (raw * vw + 0.5 * (1 - vw))) \<le> max 0 (min 1 (raw' * vw + 0.5 * (1 - vw)))"
  using assms by (simp add: max_def min_def)

lemma Score_unfold:
  assumes "ReputationRecord.TotalClaims rr \<noteq> 0"
  shows "Score now rr =
    max 0 (min 1
      ((float64 (ReputationRecord.AgreedClaims rr) / float64 (ReputationRecord.TotalClaims rr)
         - float64 (ReputationRecord.DisputedClaims rr) / float64 (ReputationRecord.TotalClaims rr) * 0.5
         + min (Hours (time_Since now (FirstSeen rr)) / (24 * 365)) 0.1)
        * min (float64 (ReputationRecord.TotalClaims rr) / 100) 1
       + 0.5 * (1 - min (float64 (ReputationRecord.TotalClaims rr) / 100) 1)))"
  using assms by (simp add: Score_def Let_def)

text \<open>
  Claim C7. At a fixed time, for every record: one more agreed claim never lowers
  \<open>Score\<close>, and one more disputed claim never raises it, all other fields unchanged.
  The counter that is increased is not at the greatest \<open>int64\<close>, where adding one would
  wrap around.
\<close>

theorem score_monotone_in_agreed_and_disputed:
  "(sint (ReputationRecord.AgreedClaims rr) < 2 ^ 63 - 1 \<longrightarrow>
      Score now rr
        \<le> Score now (rr\<lparr>ReputationRecord.AgreedClaims := ReputationRecord.AgreedClaims rr + 1\<rparr>)) \<and>
   (sint (ReputationRecord.DisputedClaims rr) < 2 ^ 63 - 1 \<longrightarrow>
      Score now (rr\<lparr>ReputationRecord.DisputedClaims := ReputationRecord.DisputedClaims rr + 1\<rparr>)
        \<le> Score now rr)"
proof (cases "ReputationRecord.TotalClaims rr = 0")
  case True
  then show ?thesis by (simp add: Score_def)
next
  case False
  define t where "t = float64 (ReputationRecord.TotalClaims rr)"
  define a where "a = float64 (ReputationRecord.AgreedClaims rr)"
  define d where "d = float64 (ReputationRecord.DisputedClaims rr)"
  define lb where "lb = min (Hours (time_Since now (FirstSeen rr)) / (24 * 365)) (0.1 :: real)"
  define vw where "vw = min (t / 100) 1"
  have t: "t \<noteq> 0"
    unfolding t_def using False by (rule float64_nonzero)
  have k: "0 \<le> vw / t"
    unfolding vw_def using t by (rule volume_weight_over_total)
  have S: "Score now rr = max 0 (min 1 ((a / t - d / t * 0.5 + lb) * vw + 0.5 * (1 - vw)))"
    unfolding a_def d_def t_def lb_def vw_def using False by (rule Score_unfold)
  show ?thesis
  proof (intro conjI impI)
    assume "sint (ReputationRecord.AgreedClaims rr) < 2 ^ 63 - 1"
    then have "float64 (ReputationRecord.AgreedClaims rr + 1) = a + 1"
      unfolding a_def by (rule float64_succ)
    then have S': "Score now (rr\<lparr>ReputationRecord.AgreedClaims := ReputationRecord.AgreedClaims rr + 1\<rparr>)
        = max 0 (min 1 (((a + 1) / t - d / t * 0.5 + lb) * vw + 0.5 * (1 - vw)))"
      using False
      by (simp add: Score_unfold t_def d_def a_def lb_def vw_def)
    have "((a + 1) / t - d / t * 0.5 + lb) * vw = (a / t - d / t * 0.5 + lb) * vw + vw / t"
      using t by (simp add: field_simps)
    with k have "(a / t - d / t * 0.5 + lb) * vw \<le> ((a + 1) / t - d / t * 0.5 + lb) * vw"
      by simp
    then show "Score now rr
        \<le> Score now (rr\<lparr>ReputationRecord.AgreedClaims := ReputationRecord.AgreedClaims rr + 1\<rparr>)"
      unfolding S S' by (rule blend_mono)
  next
    assume "sint (ReputationRecord.DisputedClaims rr) < 2 ^ 63 - 1"
    then have "float64 (ReputationRecord.DisputedClaims rr + 1) = d + 1"
      unfolding d_def by (rule float64_succ)
    then have S': "Score now (rr\<lparr>ReputationRecord.DisputedClaims := ReputationRecord.DisputedClaims rr + 1\<rparr>)
        = max 0 (min 1 ((a / t - (d + 1) / t * 0.5 + lb) * vw + 0.5 * (1 - vw)))"
      using False
      by (simp add: Score_unfold t_def d_def a_def lb_def vw_def)
    have "(a / t - (d + 1) / t * 0.5 + lb) * vw = (a / t - d / t * 0.5 + lb) * vw - vw / t * 0.5"
      using t by (simp add: field_simps)
    with k have "(a / t - (d + 1) / t * 0.5 + lb) * vw \<le> (a / t - d / t * 0.5 + lb) * vw"
      by simp
    then show "Score now (rr\<lparr>ReputationRecord.DisputedClaims := ReputationRecord.DisputedClaims rr + 1\<rparr>)
        \<le> Score now rr"
      unfolding S S' by (rule blend_mono)
  qed
qed

theorem score_monotone_in_agreed_and_disputed_witness:
  "sint (ReputationRecord.AgreedClaims example_record) < 2 ^ 63 - 1 \<and>
   sint (ReputationRecord.DisputedClaims example_record) < 2 ^ 63 - 1 \<and>
   Score 100 example_record \<le> Score 100 (example_record\<lparr>ReputationRecord.AgreedClaims := 6\<rparr>) \<and>
   Score 100 (example_record\<lparr>ReputationRecord.DisputedClaims := 3\<rparr>) \<le> Score 100 example_record"
proof -
  have h: "sint (ReputationRecord.AgreedClaims example_record) < 2 ^ 63 - 1"
    "sint (ReputationRecord.DisputedClaims example_record) < 2 ^ 63 - 1"
    by (simp_all add: example_record_def)
  have v: "ReputationRecord.AgreedClaims example_record + 1 = 6"
    "ReputationRecord.DisputedClaims example_record + 1 = 3"
    by (simp_all add: example_record_def)
  show ?thesis
    using h score_monotone_in_agreed_and_disputed [of example_record 100] by (simp add: v)
qed

section \<open>Properties of the recording operations\<close>

lemma RecordAgreement_absent:
  "rs w = None \<Longrightarrow> RecordAgreement rs w d = rs"
  by (simp add: RecordAgreement_def)

lemma RecordDispute_absent:
  "rs w = None \<Longrightarrow> RecordDispute rs w d = rs"
  by (simp add: RecordDispute_def)

lemma RecordAgreement_domain:
  assumes "rs w = Some r" "d \<noteq> []" "Domains r d = Some dr"
  shows "RecordAgreement rs w d =
    rs(w \<mapsto> r\<lparr>ReputationRecord.AgreedClaims := ReputationRecord.AgreedClaims r + 1,
               Domains := (Domains r)(d \<mapsto> dr\<lparr>DomainReputation.AgreedClaims :=
                                            DomainReputation.AgreedClaims dr + 1\<rparr>)\<rparr>)"
  using assms by (simp add: RecordAgreement_def Let_def)

lemma RecordAgreement_no_domain:
  assumes "rs w = Some r" "d = [] \<or> Domains r d = None"
  shows "RecordAgreement rs w d =
    rs(w \<mapsto> r\<lparr>ReputationRecord.AgreedClaims := ReputationRecord.AgreedClaims r + 1\<rparr>)"
  using assms by (auto simp: RecordAgreement_def Let_def)

lemma RecordDispute_domain:
  assumes "rs w = Some r" "d \<noteq> []" "Domains r d = Some dr"
  shows "RecordDispute rs w d =
    rs(w \<mapsto> r\<lparr>ReputationRecord.DisputedClaims := ReputationRecord.DisputedClaims r + 1,
               Domains := (Domains r)(d \<mapsto> dr\<lparr>DomainReputation.DisputedClaims :=
                                            DomainReputation.DisputedClaims dr + 1\<rparr>)\<rparr>)"
  using assms by (simp add: RecordDispute_def Let_def)

lemma RecordDispute_no_domain:
  assumes "rs w = Some r" "d = [] \<or> Domains r d = None"
  shows "RecordDispute rs w d =
    rs(w \<mapsto> r\<lparr>ReputationRecord.DisputedClaims := ReputationRecord.DisputedClaims r + 1\<rparr>)"
  using assms by (auto simp: RecordDispute_def Let_def)

text \<open>
  Claim C9. For a witness id without a record, \<open>RecordAgreement\<close> and \<open>RecordDispute\<close>
  return the store as it was (there is no error to report: the functions return nothing).
  For a witness with a record they replace that one record by a copy in which
  \<open>AgreedClaims\<close> (for a dispute, \<open>DisputedClaims\<close>) is one more and, exactly when the
  domain is not empty and has an entry in the record's \<open>Domains\<close>, the same counter of
  that entry is one more. Everything else is as before: \<open>TotalClaims\<close>, the other counter,
  \<open>FirstSeen\<close>, \<open>LastSeen\<close>, the other domains and the other witnesses' records.
\<close>

theorem record_agreement_dispute_effect:
  "(rs w = None \<longrightarrow> RecordAgreement rs w d = rs \<and> RecordDispute rs w d = rs) \<and>
   (rs w = Some r \<and> d \<noteq> [] \<and> Domains r d = Some dr \<longrightarrow>
      RecordAgreement rs w d =
        rs(w \<mapsto> r\<lparr>ReputationRecord.AgreedClaims := ReputationRecord.AgreedClaims r + 1,
                   Domains := (Domains r)(d \<mapsto> dr\<lparr>DomainReputation.AgreedClaims :=
                                                DomainReputation.AgreedClaims dr + 1\<rparr>)\<rparr>) \<and>
      RecordDispute rs w d =
        rs(w \<mapsto> r\<lparr>ReputationRecord.DisputedClaims := ReputationRecord.DisputedClaims r + 1,
                   Domains := (Domains r)(d \<mapsto> dr\<lparr>DomainReputation.DisputedClaims :=
                                                DomainReputation.DisputedClaims dr + 1\<rparr>)\<rparr>)) \<and>
   (rs w = Some r \<and> (d = [] \<or> Domains r d = None) \<longrightarrow>
      RecordAgreement rs w d =
        rs(w \<mapsto> r\<lparr>ReputationRecord.AgreedClaims := ReputationRecord.AgreedClaims r + 1\<rparr>) \<and>
      RecordDispute rs w d =
        rs(w \<mapsto> r\<lparr>ReputationRecord.DisputedClaims := ReputationRecord.DisputedClaims r + 1\<rparr>))"
proof (intro conjI impI)
  assume "rs w = None"
  then show "RecordAgreement rs w d = rs" "RecordDispute rs w d = rs"
    by (rule RecordAgreement_absent, rule RecordDispute_absent)
next
  assume h: "rs w = Some r \<and> d \<noteq> [] \<and> Domains r d = Some dr"
  then show "RecordAgreement rs w d =
        rs(w \<mapsto> r\<lparr>ReputationRecord.AgreedClaims := ReputationRecord.AgreedClaims r + 1,
                   Domains := (Domains r)(d \<mapsto> dr\<lparr>DomainReputation.AgreedClaims :=
                                                DomainReputation.AgreedClaims dr + 1\<rparr>)\<rparr>)"
    by (intro RecordAgreement_domain) simp_all
  from h show "RecordDispute rs w d =
        rs(w \<mapsto> r\<lparr>ReputationRecord.DisputedClaims := ReputationRecord.DisputedClaims r + 1,
                   Domains := (Domains r)(d \<mapsto> dr\<lparr>DomainReputation.DisputedClaims :=
                                                DomainReputation.DisputedClaims dr + 1\<rparr>)\<rparr>)"
    by (intro RecordDispute_domain) simp_all
next
  assume h: "rs w = Some r \<and> (d = [] \<or> Domains r d = None)"
  then show "RecordAgreement rs w d =
        rs(w \<mapsto> r\<lparr>ReputationRecord.AgreedClaims := ReputationRecord.AgreedClaims r + 1\<rparr>)"
    by (intro RecordAgreement_no_domain) simp_all
  from h show "RecordDispute rs w d =
        rs(w \<mapsto> r\<lparr>ReputationRecord.DisputedClaims := ReputationRecord.DisputedClaims r + 1\<rparr>)"
    by (intro RecordDispute_no_domain) simp_all
qed

lemma example_store_from_api:
  "RecordAgreement (RecordAttestation 100 100 Map.empty ''w1'' ''sports'') ''w1'' '''' =
     [''w1'' \<mapsto> example_record\<lparr>ReputationRecord.TotalClaims := 1, ReputationRecord.AgreedClaims := 1,
                                  ReputationRecord.DisputedClaims := 0\<rparr>]"
  by (simp add: RecordAttestation_def RecordAgreement_def Let_def example_record_def example_domain_def)

theorem record_agreement_dispute_effect_witness:
  "example_store ''w2'' = None \<and>
   RecordAgreement example_store ''w2'' ''sports'' = example_store \<and>
   RecordDispute example_store ''w2'' ''sports'' = example_store \<and>
   example_store ''w1'' = Some example_record \<and>
   Domains example_record ''sports'' = Some example_domain \<and>
   Domains example_record ''web'' = None \<and>
   RecordAgreement example_store ''w1'' ''sports'' =
     [''w1'' \<mapsto> example_record\<lparr>ReputationRecord.AgreedClaims := 6,
        Domains := [''sports'' \<mapsto> example_domain\<lparr>DomainReputation.AgreedClaims := 1\<rparr>]\<rparr>] \<and>
   RecordDispute example_store ''w1'' ''sports'' =
     [''w1'' \<mapsto> example_record\<lparr>ReputationRecord.DisputedClaims := 3,
        Domains := [''sports'' \<mapsto> example_domain\<lparr>DomainReputation.DisputedClaims := 1\<rparr>]\<rparr>] \<and>
   RecordAgreement example_store ''w1'' ''web'' =
     [''w1'' \<mapsto> example_record\<lparr>ReputationRecord.AgreedClaims := 6\<rparr>] \<and>
   RecordDispute example_store ''w1'' '''' =
     [''w1'' \<mapsto> example_record\<lparr>ReputationRecord.DisputedClaims := 3\<rparr>]"
proof -
  note T = record_agreement_dispute_effect
  have a: "example_store ''w2'' = None"
    by (simp add: example_store_def)
  have p: "example_store ''w1'' = Some example_record"
    by (simp add: example_store_def)
  have s: "Domains example_record ''sports'' = Some example_domain"
    by (simp add: example_record_def)
  have n: "Domains example_record ''web'' = None"
    by (simp add: example_record_def)
  have v: "ReputationRecord.AgreedClaims example_record + 1 = 6"
    "ReputationRecord.DisputedClaims example_record + 1 = 3"
    "DomainReputation.AgreedClaims example_domain + 1 = 1"
    "DomainReputation.DisputedClaims example_domain + 1 = 1"
    by (simp_all add: example_record_def example_domain_def)
  have 1: "RecordAgreement example_store ''w2'' ''sports'' = example_store \<and>
      RecordDispute example_store ''w2'' ''sports'' = example_store"
    using T [of example_store "''w2''" "''sports''"] a by blast
  have 2: "RecordAgreement example_store ''w1'' ''sports'' =
     [''w1'' \<mapsto> example_record\<lparr>ReputationRecord.AgreedClaims := 6,
        Domains := [''sports'' \<mapsto> example_domain\<lparr>DomainReputation.AgreedClaims := 1\<rparr>]\<rparr>] \<and>
     RecordDispute example_store ''w1'' ''sports'' =
     [''w1'' \<mapsto> example_record\<lparr>ReputationRecord.DisputedClaims := 3,
        Domains := [''sports'' \<mapsto> example_domain\<lparr>DomainReputation.DisputedClaims := 1\<rparr>]\<rparr>]"
    using T [of example_store "''w1''" "''sports''" example_record example_domain] p s
    by (simp add: v) (simp add: example_store_def example_record_def)
  have 3: "RecordAgreement example_store ''w1'' ''web'' =
     [''w1'' \<mapsto> example_record\<lparr>ReputationRecord.AgreedClaims := 6\<rparr>]"
    using T [of example_store "''w1''" "''web''" example_record] p n
    by (simp add: v) (simp add: example_store_def)
  have 4: "RecordDispute example_store ''w1'' '''' =
     [''w1'' \<mapsto> example_record\<lparr>ReputationRecord.DisputedClaims := 3\<rparr>]"
    using T [of example_store "''w1''" "''''" example_record] p
    by (simp add: v) (simp add: example_store_def)
  from a p s n 1 2 3 4 show ?thesis by blast
qed

section \<open>Properties of the claim confidence\<close>

lemma GetRecord_eq: "GetRecord rs w = rs w"
proof (cases "rs w")
  case None
  then show ?thesis by (simp add: GetRecord_def)
next
  case (Some r)
  have "(\<lambda>k. case Domains r k of None \<Rightarrow> None | Some v \<Rightarrow> Some v) = Domains r"
    by (rule ext) (simp split: option.splits)
  with Some show ?thesis by (simp add: GetRecord_def)
qed

lemma length_witness_scores [simp]:
  "length (witness_scores clock store dm i atts) = length atts"
  by (induction atts arbitrary: i) simp_all

lemma witness_scores_bounds:
  "s \<in> set (witness_scores clock store dm i atts) \<Longrightarrow> 0 \<le> s \<and> s \<le> 1"
proof (induction atts arbitrary: i)
  case Nil
  then show ?case by simp
next
  case (Cons att atts)
  then show ?case
    using DomainScore_bounds by (auto split: option.splits)
qed

lemma witness_scores_enumerate:
  "witness_scores clock store dm i atts =
     map (\<lambda>(j, att). case store (Attestation.WitnessID att) of
                        None \<Rightarrow> 0.5
                      | Some r \<Rightarrow> DomainScore (clock j) r dm) (enumerate i atts)"
  by (induction atts arbitrary: i) simp_all

lemma ClaimConfidence_loop_eq:
  "ClaimConfidence_loop clock store dm i atts (tw, ws) =
     (tw + (\<Sum>s\<leftarrow>witness_scores clock store dm i atts. 0.5 + s * 0.5),
      ws + (\<Sum>s\<leftarrow>witness_scores clock store dm i atts. s * (0.5 + s * 0.5)))"
proof (induction atts arbitrary: i tw ws)
  case Nil
  show ?case by simp
next
  case (Cons att atts)
  show ?case
    by (simp add: Cons.IH GetRecord_eq Let_def split: option.splits)
qed

lemma total_weight_pos:
  fixes ss :: "real list"
  assumes "ss \<noteq> []" "\<And>s. s \<in> set ss \<Longrightarrow> 0 \<le> s"
  shows "0 < (\<Sum>s\<leftarrow>ss. 0.5 + s * 0.5)"
  using assms
proof (induction ss)
  case Nil
  then show ?case by simp
next
  case (Cons x xs)
  have "0 \<le> (\<Sum>s\<leftarrow>xs. 0.5 + s * 0.5)"
    using Cons.prems(2) by (intro sum_list_nonneg) auto
  moreover have "0 \<le> x"
    using Cons.prems(2) by simp
  ultimately show ?case by simp
qed

lemma clamp01_bounds: "0 \<le> clamp01 x \<and> clamp01 x \<le> 1"
  by (simp add: clamp01_def)

lemma ClaimConfidence_eq:
  "ClaimConfidence clock c store =
     (if Witnesses c = [] then 0
      else confidence_of_scores
             (witness_scores clock store (Statement.Domain' (Statement c)) 0 (Witnesses c)))"
proof (cases "Witnesses c = []")
  case True
  then show ?thesis by (simp add: ClaimConfidence_def)
next
  case False
  define ss where "ss = witness_scores clock store (Statement.Domain' (Statement c)) 0 (Witnesses c)"
  have ne: "ss \<noteq> []"
    using False length_witness_scores [of clock store "Statement.Domain' (Statement c)" 0 "Witnesses c"]
    unfolding ss_def by (metis length_0_conv)
  have "0 < (\<Sum>s\<leftarrow>ss. 0.5 + s * 0.5)"
    using ne witness_scores_bounds unfolding ss_def by (intro total_weight_pos) blast+
  then have nz: "(\<Sum>s\<leftarrow>ss. 0.5 + s * 0.5) \<noteq> 0"
    by simp
  have len: "length ss = length (Witnesses c)"
    by (simp add: ss_def)
  have "ClaimConfidence clock c store =
      max 0 (min 1 ((\<Sum>s\<leftarrow>ss. s * (0.5 + s * 0.5)) / (\<Sum>s\<leftarrow>ss. 0.5 + s * 0.5)
                     + min (real (length (Witnesses c)) / 5) 0.2))"
    using False nz
    by (simp add: ClaimConfidence_def ClaimConfidence_loop_eq ss_def [symmetric] Let_def)
  also have "\<dots> = confidence_of_scores ss"
    by (simp add: confidence_of_scores_def clamp01_def weighted_average_def len)
  finally show ?thesis
    using False by (simp add: ss_def)
qed

text \<open>
  Claim C8. \<open>ClaimConfidence\<close> is exactly 0 for a claim without witnesses and always lies
  between 0 and 1. For a claim with witnesses it is the weighted average of the
  per-witness scores (weight \<open>0.5 + score * 0.5\<close>, an unknown witness scoring 0.5) plus
  \<open>min (witness_count / 5) 0.2\<close>, clamped to the interval from 0 to 1.
\<close>

theorem claim_confidence_formula_and_bounds:
  "ClaimConfidence clock (c\<lparr>Witnesses := []\<rparr>) store = 0 \<and>
   0 \<le> ClaimConfidence clock c store \<and> ClaimConfidence clock c store \<le> 1 \<and>
   (Witnesses c \<noteq> [] \<longrightarrow>
      ClaimConfidence clock c store =
        clamp01 (weighted_average
                   (witness_scores clock store (Statement.Domain' (Statement c)) 0 (Witnesses c))
                 + min (real (length (Witnesses c)) / 5) 0.2))"
proof (intro conjI impI)
  show "ClaimConfidence clock (c\<lparr>Witnesses := []\<rparr>) store = 0"
    by (simp add: ClaimConfidence_def)
  show "0 \<le> ClaimConfidence clock c store"
    using clamp01_bounds by (simp add: ClaimConfidence_eq confidence_of_scores_def)
  show "ClaimConfidence clock c store \<le> 1"
    using clamp01_bounds by (simp add: ClaimConfidence_eq confidence_of_scores_def)
next
  assume "Witnesses c \<noteq> []"
  then show "ClaimConfidence clock c store =
        clamp01 (weighted_average
                   (witness_scores clock store (Statement.Domain' (Statement c)) 0 (Witnesses c))
                 + min (real (length (Witnesses c)) / 5) 0.2)"
    by (simp add: ClaimConfidence_eq confidence_of_scores_def)
qed

theorem claim_confidence_formula_and_bounds_witness:
  "Witnesses attested_claim \<noteq> [] \<and>
   witness_scores (\<lambda>i. 100) example_store ''web'' 0 (Witnesses attested_claim) = [0.5] \<and>
   ClaimConfidence (\<lambda>i. 100) attested_claim example_store = 0.7"
proof -
  have ne: "Witnesses attested_claim \<noteq> []"
    by (simp add: attested_claim_def)
  have dm: "Statement.Domain' (Statement attested_claim) = ''web''"
    by (simp add: attested_claim_def example_claim_def example_statement_def)
  have ss: "witness_scores (\<lambda>i. 100) example_store ''web'' 0 (Witnesses attested_claim) = [0.5]"
    by (simp add: attested_claim_def att_a_def example_store_def wid_a_def)
  have "ClaimConfidence (\<lambda>i. 100) attested_claim example_store =
      clamp01 (weighted_average
                 (witness_scores (\<lambda>i. 100) example_store
                    (Statement.Domain' (Statement attested_claim)) 0 (Witnesses attested_claim))
               + min (real (length (Witnesses attested_claim)) / 5) 0.2)"
    using claim_confidence_formula_and_bounds [of "\<lambda>i. 100" attested_claim example_store] ne
    by blast
  then have "ClaimConfidence (\<lambda>i. 100) attested_claim example_store =
      clamp01 (weighted_average [0.5] + min (real (length (Witnesses attested_claim)) / 5) 0.2)"
    unfolding dm ss .
  also have "\<dots> = 0.7"
    by (simp add: attested_claim_def clamp01_def weighted_average_def)
  finally show ?thesis
    using ne ss by simp
qed

lemma DomainScore_fallback_absent:
  "Domains r d = None \<Longrightarrow> DomainScore now r d = Score now r"
  by (simp add: DomainScore_def)

lemma DomainScore_fallback_zero:
  "Domains r d = Some dr \<Longrightarrow> DomainReputation.TotalClaims dr = 0 \<Longrightarrow> DomainScore now r d = Score now r"
  by (simp add: DomainScore_def)

text \<open>
  Claim C10. The score \<open>ClaimConfidence\<close> uses for each attesting witness is
  \<open>DomainScore\<close> of its record for the domain of the claim's statement, and 0.5 for a
  witness without a record. \<open>DomainScore\<close> is the global \<open>Score\<close> when the record has no
  entry for the domain or the entry has no claims.
\<close>

theorem claim_confidence_uses_domain_score:
  "ClaimConfidence clock c store =
     (if Witnesses c = [] then 0
      else confidence_of_scores
             (map (\<lambda>(i, att). case store (Attestation.WitnessID att) of
                                 None \<Rightarrow> 0.5
                               | Some r \<Rightarrow> DomainScore (clock i) r (Statement.Domain' (Statement c)))
                  (enumerate 0 (Witnesses c)))) \<and>
   (Domains r d = None \<longrightarrow> DomainScore now r d = Score now r) \<and>
   (Domains r d = Some dr \<and> DomainReputation.TotalClaims dr = 0 \<longrightarrow>
      DomainScore now r d = Score now r)"
  using DomainScore_fallback_absent [of r d now] DomainScore_fallback_zero [of r d dr now]
  by (simp add: ClaimConfidence_eq witness_scores_enumerate)

lemma Hours_0: "Hours (time_Since t t) = 0"
  by (simp add: Hours_def time_Since_def time_Sub_def go_quot_def go_rem_def)

lemma Score_trusted: "Score 0 trusted_record = 1"
  by (simp add: Score_def Let_def trusted_record_def float64_def Hours_0)

lemma DomainScore_trusted: "DomainScore 0 trusted_record ''web'' = 0"
proof -
  have d: "Domains trusted_record ''web'' =
     Some \<lparr> DomainReputation.Domain' = ''web'', DomainReputation.TotalClaims = 50,
            DomainReputation.AgreedClaims = 0, DomainReputation.DisputedClaims = 50 \<rparr>"
    by (simp add: trusted_record_def)
  have f: "float64 50 = 50" "float64 0 = 0"
    by (simp_all add: float64_def)
  show ?thesis
    by (simp add: DomainScore_def d Score_trusted Let_def f)
qed

theorem claim_confidence_uses_domain_score_witness:
  "Domains example_record ''web'' = None \<and>
   DomainScore 100 example_record ''web'' = Score 100 example_record \<and>
   Domains trusted_record ''web'' =
     Some \<lparr> DomainReputation.Domain' = ''web'', DomainReputation.TotalClaims = 50,
            DomainReputation.AgreedClaims = 0, DomainReputation.DisputedClaims = 50 \<rparr> \<and>
   DomainScore 0 (trusted_record\<lparr>Domains := [''web'' \<mapsto> example_domain\<lparr>DomainReputation.TotalClaims := 0\<rparr>]\<rparr>) ''web''
     = Score 0 (trusted_record\<lparr>Domains := [''web'' \<mapsto> example_domain\<lparr>DomainReputation.TotalClaims := 0\<rparr>]\<rparr>) \<and>
   Score 0 trusted_record = 1 \<and>
   DomainScore 0 trusted_record ''web'' = 0 \<and>
   ClaimConfidence (\<lambda>i. 0) attested_claim trusted_store = 0.2"
proof -
  note T = claim_confidence_uses_domain_score
  define rz where "rz = trusted_record\<lparr>Domains := [''web'' \<mapsto> example_domain\<lparr>DomainReputation.TotalClaims := 0\<rparr>]\<rparr>"
  have n: "Domains example_record ''web'' = None"
    by (simp add: example_record_def)
  have 1: "DomainScore 100 example_record ''web'' = Score 100 example_record"
    using T [of "\<lambda>i. 0" attested_claim trusted_store example_record "''web''" 100] n by blast
  have z: "Domains rz ''web'' = Some (example_domain\<lparr>DomainReputation.TotalClaims := 0\<rparr>) \<and>
      DomainReputation.TotalClaims (example_domain\<lparr>DomainReputation.TotalClaims := 0\<rparr>) = 0"
    by (simp add: rz_def)
  have 2: "DomainScore 0 rz ''web'' = Score 0 rz"
    using T [of "\<lambda>i. 0" attested_claim trusted_store rz "''web''" 0
        "example_domain\<lparr>DomainReputation.TotalClaims := 0\<rparr>"] z by blast
  have d: "Domains trusted_record ''web'' =
     Some \<lparr> DomainReputation.Domain' = ''web'', DomainReputation.TotalClaims = 50,
            DomainReputation.AgreedClaims = 0, DomainReputation.DisputedClaims = 50 \<rparr>"
    by (simp add: trusted_record_def)
  have "ClaimConfidence (\<lambda>i. 0) attested_claim trusted_store =
      confidence_of_scores [DomainScore 0 trusted_record ''web'']"
    using T [of "\<lambda>i. 0" attested_claim trusted_store]
    by (simp add: attested_claim_def att_a_def trusted_store_def example_claim_def
        example_statement_def)
  also have "\<dots> = 0.2"
    by (simp add: DomainScore_trusted confidence_of_scores_def weighted_average_def clamp01_def)
  finally have 3: "ClaimConfidence (\<lambda>i. 0) attested_claim trusted_store = 0.2" .
  from n 1 2 d 3 Score_trusted DomainScore_trusted show ?thesis
    unfolding rz_def by blast
qed

end
